theory Spec2Isabelle
  imports Complex_Main "HOL-Library.AList"
begin

section \<open>Package fetcher: the task plan and the fetch operation\<close>

text \<open>
  The file \<^verbatim>\<open>fetcher/fetcher.go\<close> holds \<^verbatim>\<open>workInit\<close> and \<^verbatim>\<open>fetch\<close>. The worker
  (\<^verbatim>\<open>Reset\<close>, \<^verbatim>\<open>Push\<close>, \<^verbatim>\<open>PushIf\<close>, \<^verbatim>\<open>Do\<close>), the filter (\<^verbatim>\<open>Enabled\<close>), the session
  constructor \<^verbatim>\<open>NewSessionExt\<close> and package \<^verbatim>\<open>models\<close> are not among the sources.
\<close>

type_synonym error = string

text \<open>
  The constants of package \<^verbatim>\<open>filters\<close> that \<^verbatim>\<open>workInit\<close> names: a closed enumeration of
  categories.
\<close>

datatype filters =
    filters_Applications | filters_Organizations | filters_Spaces | filters_Domains
  | filters_Routes | filters_SecurityGroups | filters_Stacks | filters_Buildpacks
  | filters_Tasks | filters_Services | filters_ServiceInstances | filters_ServicePlans
  | filters_IsolationSegments | filters_ServiceBindings | filters_ServiceRouteBindings
  | filters_Events | filters_Metadata

text \<open>The methods of the fetcher that \<^verbatim>\<open>workInit\<close> binds to task names.\<close>

datatype handler =
    fetchInfo | fetchOrgs | fetchSpaces | fetchApplications | fetchOrgQuotas
  | fetchSpaceQuotas | fetchDomains | fetchProcesses | fetchRoutes | fetchRouteServices
  | fetchSecurityGroups | fetchStacks | fetchBuildpacks | fetchTasks | fetchServiceBrokers
  | fetchServiceOfferings | fetchServiceInstances | fetchServicePlans
  | fetchIsolationSegments | fetchServiceBindings | fetchServiceRouteBindings
  | fetchUsers | fetchEvents

text \<open>
  The worker: its filter (the answer of \<^verbatim>\<open>filter.Enabled\<close> for each category) and the
  task plan, a list of named handlers in the order they were pushed.
\<close>

record Worker =
  worker_filter :: "filters \<Rightarrow> bool"
  worker_list :: "(string \<times> handler) list"

definition Enabled :: "(filters \<Rightarrow> bool) \<Rightarrow> filters \<Rightarrow> bool" where
  "Enabled f name = f name"

text \<open>
  Modelled from the spec: \<^verbatim>\<open>Worker.Reset\<close> is missing from the sources; a task plan is
  built afresh for each scrape, so it empties the plan.
\<close>

definition Reset :: "Worker \<Rightarrow> Worker" where
  "Reset w = w\<lparr>worker_list := []\<rparr>"

text \<open>
  Modelled from the spec: \<^verbatim>\<open>Worker.Push\<close> is missing from the sources; each fetchable
  category is registered as a named task bound to a fetch function.
\<close>

definition Push :: "string \<Rightarrow> handler \<Rightarrow> Worker \<Rightarrow> Worker" where
  "Push name h w = w\<lparr>worker_list := worker_list w @ [(name, h)]\<rparr>"

text \<open>
  Modelled from the spec: \<^verbatim>\<open>Worker.PushIf\<close> is missing from the sources; a category is
  included in the plan if any of its governing filter flags is enabled.
\<close>

definition PushIf :: "string \<Rightarrow> handler \<Rightarrow> filters list \<Rightarrow> Worker \<Rightarrow> Worker" where
  "PushIf name h any w =
     (if list_ex (Enabled (worker_filter w)) any then Push name h w else w)"

text \<open>\<^verbatim>\<open>workInit\<close>, statement by statement.\<close>

definition workInit_head :: "Worker \<Rightarrow> Worker" where
  "workInit_head w0 =
     (let w = Reset w0;
          w = Push ''info'' fetchInfo w
      in if Enabled (worker_filter w) filters_Metadata then
           (let w = Push ''organizations'' fetchOrgs w;
                w = Push ''spaces'' fetchSpaces w
            in Push ''applications'' fetchApplications w)
         else
           (let w = PushIf ''organizations'' fetchOrgs
                      [filters_Applications, filters_Organizations] w;
                w = PushIf ''spaces'' fetchSpaces [filters_Applications, filters_Spaces] w
            in PushIf ''applications'' fetchApplications [filters_Applications] w))"

definition workInit_tail :: "Worker \<Rightarrow> Worker" where
  "workInit_tail w0 =
     (let w = PushIf ''org_quotas'' fetchOrgQuotas [filters_Organizations] w0;
          w = PushIf ''space_quotas'' fetchSpaceQuotas [filters_Spaces] w;
          w = PushIf ''domains'' fetchDomains [filters_Domains] w;
          w = PushIf ''process'' fetchProcesses [filters_Applications] w;
          w = PushIf ''routes'' fetchRoutes [filters_Routes] w;
          w = PushIf ''route_services'' fetchRouteServices [filters_Routes] w;
          w = PushIf ''security_groups'' fetchSecurityGroups [filters_SecurityGroups] w;
          w = PushIf ''stacks'' fetchStacks [filters_Stacks] w;
          w = PushIf ''buildpacks'' fetchBuildpacks [filters_Buildpacks] w;
          w = PushIf ''tasks'' fetchTasks [filters_Tasks] w;
          w = PushIf ''service_brokers'' fetchServiceBrokers [filters_Services] w;
          w = PushIf ''service_offerings'' fetchServiceOfferings [filters_Services] w;
          w = PushIf ''service_instances'' fetchServiceInstances [filters_ServiceInstances] w;
          w = PushIf ''service_plans'' fetchServicePlans [filters_ServicePlans] w;
          w = PushIf ''segments'' fetchIsolationSegments [filters_IsolationSegments] w;
          w = PushIf ''service_bindings'' fetchServiceBindings [filters_ServiceBindings] w;
          w = PushIf ''service_route_bindings'' fetchServiceRouteBindings
                [filters_ServiceRouteBindings] w;
          w = PushIf ''users'' fetchUsers [filters_Events] w
      in PushIf ''events'' fetchEvents [filters_Events] w)"

definition workInit :: "Worker \<Rightarrow> Worker" where
  "workInit w = workInit_tail (workInit_head w)"


subsection \<open>Package models: the snapshot\<close>

text \<open>
  Modelled from the spec: the types of package \<^verbatim>\<open>models\<close> are missing from the sources.
  An entity carries a GUID, a name and a metadata label set (a Go \<^verbatim>\<open>map[string]string\<close>,
  here the list of its entries in the order a \<^verbatim>\<open>range\<close> visits them, keys unique).
  A relationship is absent (\<open>None\<close>), recorded without a target (\<open>Some None\<close>) or
  recorded with the GUID it refers to (\<open>Some (Some guid)\<close>). The snapshot holds for
  each category the ordered collection of its entities and a GUID-keyed index, an
  optional top-level error and the elapsed time of the fetch. The label set is always
  present, as in the spec; an entity whose \<^verbatim>\<open>Metadata\<close> pointer is nil, which
  \<^verbatim>\<open>fetcher.go\<close> tests for and the collector does not, is outside this model.
\<close>

type_synonym Labels = "(string \<times> string) list"

type_synonym Relationships = "string \<rightharpoonup> string option"

record Organization =
  org_GUID :: string
  org_Name :: string
  org_Labels :: Labels

record Space =
  space_GUID :: string
  space_Name :: string
  space_Labels :: Labels
  space_Relationships :: Relationships

record Application =
  app_GUID :: string
  app_Name :: string
  app_Labels :: Labels
  app_Relationships :: Relationships

record CFObjects =
  Organizations :: "Organization list"
  Spaces :: "Space list"
  Applications :: "Application list"
  OrganizationsMap :: "string \<rightharpoonup> Organization"
  SpacesMap :: "string \<rightharpoonup> Space"
  Error :: "error option"
  Took :: real

text \<open>
  Modelled from the spec: \<^verbatim>\<open>models.NewCFObjects\<close> is missing from the sources; a fresh
  snapshot has no entity in any category and no error.
\<close>

definition NewCFObjects :: CFObjects where
  "NewCFObjects =
     \<lparr>Organizations = [], Spaces = [], Applications = [], OrganizationsMap = Map.empty,
      SpacesMap = Map.empty, Error = None, Took = 0\<rparr>"

text \<open>
  The comma-ok read \<^verbatim>\<open>rels[name].Data.GUID\<close> of the collector: the GUID when the
  relationship is recorded with one, otherwise not ok.
\<close>

definition Data_GUID :: "Relationships \<Rightarrow> string \<Rightarrow> string option" where
  "Data_GUID rels name =
     (case rels name of Some (Some guid) \<Rightarrow> Some guid | _ \<Rightarrow> None)"

subsection \<open>The fetch operation\<close>

record CFConfig =
  SkipSSLValidation :: bool
  URL :: string
  ClientID :: string
  ClientSecret :: string
  Username :: string
  Password :: string

record Fetcher =
  config :: CFConfig
  worker :: Worker

text \<open>
  \<^verbatim>\<open>fetch\<close>. The two collaborators missing from the sources are parameters:
  \<open>newSessionExt\<close> answers with an error or a session, and \<open>worker_Do\<close> stands for
  \<^verbatim>\<open>Worker.Do\<close>, which runs the plan against the session, writes into the snapshot and
  returns the snapshot, the aggregate error and the names of the tasks whose handler it
  called. The result is the snapshot, the fetcher (whose worker \<^verbatim>\<open>workInit\<close> mutates) and
  the names of the tasks that ran.
\<close>

definition fetch ::
  "(CFConfig \<Rightarrow> error + 'session) \<Rightarrow>
   (Worker \<Rightarrow> 'session \<Rightarrow> CFObjects \<Rightarrow> CFObjects \<times> error option \<times> string list) \<Rightarrow>
   Fetcher \<Rightarrow> CFObjects \<times> Fetcher \<times> string list" where
  "fetch newSessionExt worker_Do c =
     (let result = NewCFObjects
      in case newSessionExt (config c) of
           Inl err \<Rightarrow> (result\<lparr>Error := Some err\<rparr>, c, [])
         | Inr session \<Rightarrow>
             (let c' = c\<lparr>worker := workInit (worker c)\<rparr>
              in case worker_Do (worker c') session result of
                   (result', err, called) \<Rightarrow> (result'\<lparr>Error := err\<rparr>, c', called)))"

section \<open>Package collectors: the metadata collector\<close>

text \<open>
  The variable labels of the three gauge vectors, in the order \<^verbatim>\<open>NewGaugeVec\<close> declares
  them: organization (id, name, label key, label value); space (id, name, organization
  id, organization name, label key, label value); application (id, name, organization id,
  organization name, space id, space name, label key, label value).
\<close>

type_synonym org_labels = "string \<times> string \<times> string \<times> string"

type_synonym space_labels = "string \<times> string \<times> string \<times> string \<times> string \<times> string"

type_synonym app_labels =
  "string \<times> string \<times> string \<times> string \<times> string \<times> string \<times> string \<times> string"

text \<open>
  A \<^verbatim>\<open>GaugeVec\<close> of the metrics library keeps one gauge per tuple of label values until
  it is reset or the tuple deleted: an association list from label values to the gauge's
  value. \<^verbatim>\<open>With(labels).Set(x)\<close> creates the gauge or overwrites its value; \<^verbatim>\<open>Collect\<close>
  sends every gauge the vector holds, in an order Go does not fix: here the order of the
  list, and the properties below speak of the set of samples and of their number. A
  \<^verbatim>\<open>Counter\<close> counts its \<^verbatim>\<open>Inc\<close> calls, a natural number here. The \<^verbatim>\<open>float64\<close>
  values the collector sets are 0, 1, the Unix time and the snapshot's elapsed time, which
  it passes on unchanged: real numbers here.
\<close>

type_synonym 'k GaugeVec = "('k \<times> real) list"

datatype metric =
    OrganizationMetadata org_labels real
  | SpaceMetadata space_labels real
  | ApplicationMetadata app_labels real
  | MetadataScrapesTotal nat
  | MetadataScrapeErrorsTotal nat
  | LastMetadataScrapeError real
  | LastMetadataScrapeTimestamp real
  | LastMetadataScrapeDurationSeconds real

definition With_Set :: "'k \<Rightarrow> real \<Rightarrow> 'k GaugeVec \<Rightarrow> 'k GaugeVec" where
  "With_Set labels x vec = AList.update labels x vec"

definition GaugeVec_Collect :: "('k \<Rightarrow> real \<Rightarrow> metric) \<Rightarrow> 'k GaugeVec \<Rightarrow> metric list" where
  "GaugeVec_Collect mk vec = map (\<lambda>(labels, x). mk labels x) vec"

record MetadataCollector =
  namespace :: string
  environment :: string
  deployment :: string
  organizationMetadataMetric :: "org_labels GaugeVec"
  spaceMetadataMetric :: "space_labels GaugeVec"
  applicationMetadataMetric :: "app_labels GaugeVec"
  metadataScrapesTotalMetric :: nat
  metadataScrapeErrorsTotalMetric :: nat
  lastMetadataScrapeErrorMetric :: real
  lastMetadataScrapeTimestampMetric :: real
  lastMetadataScrapeDurationSecondsMetric :: real

definition NewMetadataCollector :: "string \<Rightarrow> string \<Rightarrow> string \<Rightarrow> MetadataCollector" where
  "NewMetadataCollector ns env dep =
     \<lparr>namespace = ns, environment = env, deployment = dep,
      organizationMetadataMetric = [], spaceMetadataMetric = [],
      applicationMetadataMetric = [], metadataScrapesTotalMetric = 0,
      metadataScrapeErrorsTotalMetric = 0, lastMetadataScrapeErrorMetric = 0,
      lastMetadataScrapeTimestampMetric = 0, lastMetadataScrapeDurationSecondsMetric = 0\<rparr>"

subsection \<open>The detail-metric walk\<close>

text \<open>The body of the loop over \<^verbatim>\<open>objs.Organizations\<close>.\<close>

definition report_organization ::
  "Organization \<Rightarrow> org_labels GaugeVec \<Rightarrow> org_labels GaugeVec" where
  "report_organization org vec =
     fold (\<lambda>(key, value). With_Set (org_GUID org, org_Name org, key, value) 1)
       (org_Labels org) vec"

text \<open>
  The body of the loop over \<^verbatim>\<open>objs.Spaces\<close>; the state is the space vector and the
  warnings logged so far. Each \<^verbatim>\<open>continue\<close> leaves the vector as it is.
\<close>

definition report_space ::
  "CFObjects \<Rightarrow> Space \<Rightarrow> space_labels GaugeVec \<times> string list \<Rightarrow>
   space_labels GaugeVec \<times> string list" where
  "report_space objs space st =
     (case st of (vec, warns) \<Rightarrow>
        (case Data_GUID (space_Relationships space) ''organization'' of
           None \<Rightarrow>
             (vec, warns @ [''Space '' @ space_GUID space @ '' has no organization relationship''])
         | Some orgGUID \<Rightarrow>
             (case OrganizationsMap objs orgGUID of
                None \<Rightarrow>
                  (vec, warns @ [''Organization '' @ orgGUID @ '' not found for space ''
                                 @ space_GUID space])
              | Some org \<Rightarrow>
                  (fold (\<lambda>(key, value).
                      With_Set (space_GUID space, space_Name space, org_GUID org,
                                org_Name org, key, value) 1)
                     (space_Labels space) vec, warns))))"

text \<open>
  The three inner loops of the application loop: the application's own labels, then the
  organization's with the key prefixed, then the space's with the key prefixed.
\<close>

definition report_app_labels ::
  "Application \<Rightarrow> Organization \<Rightarrow> Space \<Rightarrow> app_labels GaugeVec \<Rightarrow> app_labels GaugeVec" where
  "report_app_labels app org space vec0 =
     (let vec = fold (\<lambda>(key, value).
                    With_Set (app_GUID app, app_Name app, org_GUID org, org_Name org,
                              space_GUID space, space_Name space, key, value) 1)
                  (app_Labels app) vec0;
          vec = fold (\<lambda>(key, value).
                    With_Set (app_GUID app, app_Name app, org_GUID org, org_Name org,
                              space_GUID space, space_Name space, ''org_'' @ key, value) 1)
                  (org_Labels org) vec
      in fold (\<lambda>(key, value).
             With_Set (app_GUID app, app_Name app, org_GUID org, org_Name org,
                       space_GUID space, space_Name space, ''space_'' @ key, value) 1)
           (space_Labels space) vec)"

text \<open>The body of the loop over \<^verbatim>\<open>objs.Applications\<close>.\<close>

definition report_application ::
  "CFObjects \<Rightarrow> Application \<Rightarrow> app_labels GaugeVec \<times> string list \<Rightarrow>
   app_labels GaugeVec \<times> string list" where
  "report_application objs app st =
     (case st of (vec, warns) \<Rightarrow>
        (case Data_GUID (app_Relationships app) ''space'' of
           None \<Rightarrow>
             (vec, warns @ [''Application '' @ app_GUID app @ '' has no space relationship''])
         | Some spaceGUID \<Rightarrow>
             (case SpacesMap objs spaceGUID of
                None \<Rightarrow>
                  (vec, warns @ [''Space '' @ spaceGUID @ '' not found for application ''
                                 @ app_GUID app])
              | Some space \<Rightarrow>
                  (case Data_GUID (space_Relationships space) ''organization'' of
                     None \<Rightarrow>
                       (vec, warns @ [''Space '' @ space_GUID space
                                      @ '' has no organization relationship''])
                   | Some orgGUID \<Rightarrow>
                       (case OrganizationsMap objs orgGUID of
                          None \<Rightarrow>
                            (vec, warns @ [''Organization '' @ orgGUID
                                           @ '' not found for space '' @ space_GUID space])
                        | Some org \<Rightarrow> (report_app_labels app org space vec, warns))))))"

text \<open>
  \<^verbatim>\<open>reportMetadataMetrics\<close>: the three loops, then the three vectors are collected into
  the channel. The result is the collector, what was sent to the channel, the warnings
  logged and the returned error, which is \<^verbatim>\<open>nil\<close> on the only return.
\<close>

definition reportMetadataMetrics ::
  "MetadataCollector \<Rightarrow> CFObjects \<Rightarrow>
   MetadataCollector \<times> metric list \<times> string list \<times> error option" where
  "reportMetadataMetrics c objs =
     (let ov = fold report_organization (Organizations objs) (organizationMetadataMetric c);
          (sv, warns) = fold (report_space objs) (Spaces objs) (spaceMetadataMetric c, []);
          (av, warns) = fold (report_application objs) (Applications objs)
                        (applicationMetadataMetric c, warns)
      in (c\<lparr>organizationMetadataMetric := ov, spaceMetadataMetric := sv,
            applicationMetadataMetric := av\<rparr>,
          GaugeVec_Collect OrganizationMetadata ov @ GaugeVec_Collect SpaceMetadata sv
            @ GaugeVec_Collect ApplicationMetadata av,
          warns, None))"

subsection \<open>The entry point\<close>

text \<open>
  \<^verbatim>\<open>Collect\<close>; \<open>now\<close> is the reading of \<^verbatim>\<open>time.Now().Unix()\<close>. The result is the
  collector, what was sent to the channel, in order, and the warnings logged.
\<close>

definition MetadataCollector_Collect ::
  "int \<Rightarrow> MetadataCollector \<Rightarrow> CFObjects \<Rightarrow> MetadataCollector \<times> metric list \<times> string list" where
  "MetadataCollector_Collect now c0 objs =
     (let (c, ch, warns, errorMetric) =
            (if Error objs \<noteq> None then
               (c0\<lparr>metadataScrapeErrorsTotalMetric := metadataScrapeErrorsTotalMetric c0 + 1\<rparr>,
                [], [], 1::real)
             else
               (case reportMetadataMetrics c0 objs of
                  (c, ch, warns, err) \<Rightarrow>
                    if err \<noteq> None then
                      (c\<lparr>metadataScrapeErrorsTotalMetric :=
                           metadataScrapeErrorsTotalMetric c + 1\<rparr>, ch, warns, 1)
                    else (c, ch, warns, 0)));
          ch = ch @ [MetadataScrapeErrorsTotal (metadataScrapeErrorsTotalMetric c)];
          c = c\<lparr>metadataScrapesTotalMetric := metadataScrapesTotalMetric c + 1\<rparr>;
          ch = ch @ [MetadataScrapesTotal (metadataScrapesTotalMetric c)];
          c = c\<lparr>lastMetadataScrapeErrorMetric := errorMetric\<rparr>;
          ch = ch @ [LastMetadataScrapeError (lastMetadataScrapeErrorMetric c)];
          c = c\<lparr>lastMetadataScrapeTimestampMetric := real_of_int now\<rparr>;
          ch = ch @ [LastMetadataScrapeTimestamp (lastMetadataScrapeTimestampMetric c)];
          c = c\<lparr>lastMetadataScrapeDurationSecondsMetric := Took objs\<rparr>;
          ch = ch @ [LastMetadataScrapeDurationSeconds
                       (lastMetadataScrapeDurationSecondsMetric c)]
      in (c, ch, warns))"

section \<open>Vocabulary of the properties\<close>

subsection \<open>Well-formed vectors and what a collector retains\<close>

text \<open>
  A gauge vector holds one gauge per tuple of label values, and the walk only ever sets a
  gauge to 1: the keys of the list are distinct and every value is 1. This holds of a new
  collector and every invocation keeps it (\<open>NewMetadataCollector_ok\<close>, \<open>Collect_ok\<close>).
\<close>

definition vec_ok :: "'k GaugeVec \<Rightarrow> bool" where
  "vec_ok vec = (distinct (map fst vec) \<and> list_all (\<lambda>e. snd e = 1) vec)"

definition collector_ok :: "MetadataCollector \<Rightarrow> bool" where
  "collector_ok c =
     (vec_ok (organizationMetadataMetric c) \<and> vec_ok (spaceMetadataMetric c) \<and>
      vec_ok (applicationMetadataMetric c))"

text \<open>The samples the three vectors of a collector hold: what collecting them would send.\<close>

definition retained :: "MetadataCollector \<Rightarrow> metric list" where
  "retained c =
     GaugeVec_Collect OrganizationMetadata (organizationMetadataMetric c)
       @ GaugeVec_Collect SpaceMetadata (spaceMetadataMetric c)
       @ GaugeVec_Collect ApplicationMetadata (applicationMetadataMetric c)"

text \<open>Setting the gauge of each tuple of a list to 1, in order.\<close>

definition set_all :: "'k list \<Rightarrow> 'k GaugeVec \<Rightarrow> 'k GaugeVec" where
  "set_all ks vec = fold (\<lambda>k. With_Set k 1) ks vec"

subsection \<open>The label tuples and warnings of one entity\<close>

text \<open>
  What the loops do for one entity, read off the loop bodies: the label tuples whose gauge
  is set and the warnings logged. The lemmas \<open>report_organization_keys\<close>,
  \<open>report_space_keys\<close> and \<open>report_application_keys\<close> prove that the loop bodies do
  exactly this.
\<close>

definition organization_keys :: "Organization \<Rightarrow> org_labels list" where
  "organization_keys org =
     map (\<lambda>(key, value). (org_GUID org, org_Name org, key, value)) (org_Labels org)"

text \<open>The organization a space resolves to: its relationship, then the index.\<close>

definition space_organization :: "CFObjects \<Rightarrow> Space \<Rightarrow> Organization option" where
  "space_organization objs space =
     (case Data_GUID (space_Relationships space) ''organization'' of
        None \<Rightarrow> None
      | Some orgGUID \<Rightarrow> OrganizationsMap objs orgGUID)"

definition space_keys :: "CFObjects \<Rightarrow> Space \<Rightarrow> space_labels list" where
  "space_keys objs space =
     (case Data_GUID (space_Relationships space) ''organization'' of
        None \<Rightarrow> []
      | Some orgGUID \<Rightarrow>
          (case OrganizationsMap objs orgGUID of
             None \<Rightarrow> []
           | Some org \<Rightarrow>
               map (\<lambda>(key, value).
                     (space_GUID space, space_Name space, org_GUID org, org_Name org, key, value))
                 (space_Labels space)))"

definition space_warnings :: "CFObjects \<Rightarrow> Space \<Rightarrow> string list" where
  "space_warnings objs space =
     (case Data_GUID (space_Relationships space) ''organization'' of
        None \<Rightarrow> [''Space '' @ space_GUID space @ '' has no organization relationship'']
      | Some orgGUID \<Rightarrow>
          (case OrganizationsMap objs orgGUID of
             None \<Rightarrow> [''Organization '' @ orgGUID @ '' not found for space '' @ space_GUID space]
           | Some org \<Rightarrow> []))"

text \<open>
  The organization and space an application resolves to: its space relationship, the
  spaces index, that space's organization relationship, the organizations index.
\<close>

definition resolve_application :: "CFObjects \<Rightarrow> Application \<Rightarrow> (Organization \<times> Space) option" where
  "resolve_application objs app =
     (case Data_GUID (app_Relationships app) ''space'' of
        None \<Rightarrow> None
      | Some spaceGUID \<Rightarrow>
          (case SpacesMap objs spaceGUID of
             None \<Rightarrow> None
           | Some space \<Rightarrow>
               (case Data_GUID (space_Relationships space) ''organization'' of
                  None \<Rightarrow> None
                | Some orgGUID \<Rightarrow>
                    (case OrganizationsMap objs orgGUID of
                       None \<Rightarrow> None
                     | Some org \<Rightarrow> Some (org, space)))))"

text \<open>
  The label keys and values rendered for a resolved application: its own, the
  organization's under \<open>org_\<close>, the space's under \<open>space_\<close>.
\<close>

definition rendered_labels :: "Application \<Rightarrow> Organization \<Rightarrow> Space \<Rightarrow> Labels" where
  "rendered_labels app org space =
     app_Labels app @ map (\<lambda>(key, value). (''org_'' @ key, value)) (org_Labels org)
       @ map (\<lambda>(key, value). (''space_'' @ key, value)) (space_Labels space)"

definition application_keys :: "CFObjects \<Rightarrow> Application \<Rightarrow> app_labels list" where
  "application_keys objs app =
     (case resolve_application objs app of
        None \<Rightarrow> []
      | Some (org, space) \<Rightarrow>
          map (\<lambda>(key, value).
                (app_GUID app, app_Name app, org_GUID org, org_Name org, space_GUID space,
                 space_Name space, key, value))
            (rendered_labels app org space))"

definition application_warnings :: "CFObjects \<Rightarrow> Application \<Rightarrow> string list" where
  "application_warnings objs app =
     (case Data_GUID (app_Relationships app) ''space'' of
        None \<Rightarrow> [''Application '' @ app_GUID app @ '' has no space relationship'']
      | Some spaceGUID \<Rightarrow>
          (case SpacesMap objs spaceGUID of
             None \<Rightarrow> [''Space '' @ spaceGUID @ '' not found for application '' @ app_GUID app]
           | Some space \<Rightarrow> space_warnings objs space))"

subsection \<open>Reading the channel\<close>

text \<open>
  The detail metrics are the samples of the three vectors. The samples of one entity are
  those of its vector whose first two labels are its GUID and its name.
\<close>

fun is_detail :: "metric \<Rightarrow> bool" where
  "is_detail (OrganizationMetadata l x) = True"
| "is_detail (SpaceMetadata l x) = True"
| "is_detail (ApplicationMetadata l x) = True"
| "is_detail _ = False"

definition detail_samples :: "metric list \<Rightarrow> metric list" where
  "detail_samples ch = filter is_detail ch"

fun of_organization :: "string \<Rightarrow> string \<Rightarrow> metric \<Rightarrow> bool" where
  "of_organization guid name (OrganizationMetadata l x) = (fst l = guid \<and> fst (snd l) = name)"
| "of_organization guid name _ = False"

fun of_space :: "string \<Rightarrow> string \<Rightarrow> metric \<Rightarrow> bool" where
  "of_space guid name (SpaceMetadata l x) = (fst l = guid \<and> fst (snd l) = name)"
| "of_space guid name _ = False"

fun of_application :: "string \<Rightarrow> string \<Rightarrow> metric \<Rightarrow> bool" where
  "of_application guid name (ApplicationMetadata l x) = (fst l = guid \<and> fst (snd l) = name)"
| "of_application guid name _ = False"

definition organization_samples :: "string \<Rightarrow> string \<Rightarrow> metric list \<Rightarrow> metric list" where
  "organization_samples guid name ch = filter (of_organization guid name) ch"

definition space_samples :: "string \<Rightarrow> string \<Rightarrow> metric list \<Rightarrow> metric list" where
  "space_samples guid name ch = filter (of_space guid name) ch"

definition application_samples :: "string \<Rightarrow> string \<Rightarrow> metric list \<Rightarrow> metric list" where
  "application_samples guid name ch = filter (of_application guid name) ch"

section \<open>Concrete inputs\<close>

text \<open>Two filters: only the applications category enabled, only the metadata category.\<close>

definition only_Applications :: Worker where
  "only_Applications =
     \<lparr>worker_filter = (\<lambda>x. x = filters_Applications), worker_list = [(''stale'', fetchEvents)]\<rparr>"

definition only_Metadata :: Worker where
  "only_Metadata = \<lparr>worker_filter = (\<lambda>x. x = filters_Metadata), worker_list = []\<rparr>"

text \<open>
  The snapshot of the end-to-end example of the spec: organization \<open>o1\<close> with label
  team = x, space \<open>s1\<close> in \<open>o1\<close> without labels, application \<open>a1\<close> in \<open>s1\<close> with label
  env = prod.
\<close>

definition example_org :: Organization where
  "example_org = \<lparr>org_GUID = ''o1'', org_Name = ''org1'', org_Labels = [(''team'', ''x'')]\<rparr>"

definition example_space :: Space where
  "example_space =
     \<lparr>space_GUID = ''s1'', space_Name = ''space1'', space_Labels = [],
      space_Relationships = [''organization'' \<mapsto> Some ''o1'']\<rparr>"

definition example_app :: Application where
  "example_app =
     \<lparr>app_GUID = ''a1'', app_Name = ''app1'', app_Labels = [(''env'', ''prod'')],
      app_Relationships = [''space'' \<mapsto> Some ''s1'']\<rparr>"

definition example_objs :: CFObjects where
  "example_objs =
     \<lparr>Organizations = [example_org], Spaces = [example_space], Applications = [example_app],
      OrganizationsMap = [''o1'' \<mapsto> example_org], SpacesMap = [''s1'' \<mapsto> example_space],
      Error = None, Took = 2\<rparr>"

definition new_collector :: MetadataCollector where
  "new_collector = NewMetadataCollector ''cf'' ''test'' ''bosh''"

text \<open>A collector that has rendered the example once.\<close>

definition used_collector :: MetadataCollector where
  "used_collector = fst (reportMetadataMetrics new_collector example_objs)"

text \<open>A snapshot whose fetch failed at session establishment.\<close>

definition errored_objs :: CFObjects where
  "errored_objs = NewCFObjects\<lparr>Error := Some ''unable to initialize cloud foundry clients''\<rparr>"

text \<open>The example after the label of \<open>o1\<close> was changed from team = x to team = y.\<close>

definition relabelled_org :: Organization where
  "relabelled_org = example_org\<lparr>org_Labels := [(''team'', ''y'')]\<rparr>"

definition relabelled_objs :: CFObjects where
  "relabelled_objs =
     example_objs\<lparr>Organizations := [relabelled_org],
       OrganizationsMap := [''o1'' \<mapsto> relabelled_org]\<rparr>"

text \<open>
  The example with the application's label keyed \<open>org_team\<close>: the key its organization's
  label \<open>team\<close> is rendered under.
\<close>

definition colliding_app :: Application where
  "colliding_app = example_app\<lparr>app_Labels := [(''org_team'', ''x'')]\<rparr>"

definition colliding_objs :: CFObjects where
  "colliding_objs = example_objs\<lparr>Applications := [colliding_app]\<rparr>"

text \<open>The example with a label tier = gold on the space.\<close>

definition labelled_space :: Space where
  "labelled_space = example_space\<lparr>space_Labels := [(''tier'', ''gold'')]\<rparr>"

definition labelled_objs :: CFObjects where
  "labelled_objs =
     example_objs\<lparr>Spaces := [labelled_space], SpacesMap := [''s1'' \<mapsto> labelled_space]\<rparr>"

text \<open>The same entities with no relationship recorded on the space and on the application.\<close>

definition detached_space :: Space where
  "detached_space = labelled_space\<lparr>space_Relationships := Map.empty\<rparr>"

definition detached_app :: Application where
  "detached_app = example_app\<lparr>app_Relationships := Map.empty\<rparr>"

definition detached_objs :: CFObjects where
  "detached_objs =
     example_objs\<lparr>Spaces := [detached_space], Applications := [detached_app],
       SpacesMap := [''s1'' \<mapsto> detached_space]\<rparr>"

text \<open>
  A fetcher whose session cannot be established, and a worker that, if it ran, would call
  every task of the plan and write an organization into the snapshot.
\<close>

definition example_fetcher :: Fetcher where
  "example_fetcher =
     \<lparr>config = \<lparr>SkipSSLValidation = False, URL = ''https://api.cf.example'',
                 ClientID = ''exporter'', ClientSecret = ''wrong'', Username = [],
                 Password = []\<rparr>,
      worker = only_Applications\<rparr>"

definition failing_session :: "CFConfig \<Rightarrow> error + unit" where
  "failing_session cfg = Inl ''unauthorized''"

definition writing_Do ::
  "Worker \<Rightarrow> unit \<Rightarrow> CFObjects \<Rightarrow> CFObjects \<times> error option \<times> string list" where
  "writing_Do w session result =
     (result\<lparr>Organizations := [example_org]\<rparr>, None, map fst (worker_list w))"

section \<open>The task plan and the fetch operation\<close>

lemma Push_filter: "worker_filter (Push name h w) = worker_filter w"
  by (simp add: Push_def)

lemma PushIf_filter: "worker_filter (PushIf name h any w) = worker_filter w"
  by (simp add: PushIf_def Push_filter)

lemma Reset_filter: "worker_filter (Reset w) = worker_filter w"
  by (simp add: Reset_def)

lemma Push_list: "worker_list (Push name h w) = worker_list w @ [(name, h)]"
  by (simp add: Push_def)

lemma PushIf_keeps: "t \<in> set (worker_list w) \<Longrightarrow> t \<in> set (worker_list (PushIf name h any w))"
  by (simp add: PushIf_def Push_list)

lemma PushIf_adds:
  "list_ex (Enabled (worker_filter w)) any \<Longrightarrow> (name, h) \<in> set (worker_list (PushIf name h any w))"
  by (simp add: PushIf_def Push_list)

lemma workInit_tail_keeps:
  "t \<in> set (worker_list w) \<Longrightarrow> t \<in> set (worker_list (workInit_tail w))"
  unfolding workInit_tail_def Let_def by (intro PushIf_keeps)

lemma workInit_tail_filter: "worker_filter (workInit_tail w) = worker_filter w"
  unfolding workInit_tail_def Let_def by (simp only: PushIf_filter)

lemma workInit_head_Metadata:
  assumes "Enabled (worker_filter w) filters_Metadata"
  shows "worker_list (workInit_head w) =
    [(''info'', fetchInfo), (''organizations'', fetchOrgs), (''spaces'', fetchSpaces),
     (''applications'', fetchApplications)]"
  using assms by (simp add: workInit_head_def Let_def Push_filter Reset_filter Push_list Reset_def)

lemma workInit_head_Applications:
  assumes "Enabled (worker_filter w) filters_Applications"
  shows "(''organizations'', fetchOrgs) \<in> set (worker_list (workInit_head w))
       \<and> (''spaces'', fetchSpaces) \<in> set (worker_list (workInit_head w))"
proof (cases "Enabled (worker_filter w) filters_Metadata")
  case True
  then show ?thesis by (simp add: workInit_head_Metadata)
next
  case False
  let ?w1 = "Push ''info'' fetchInfo (Reset w)"
  let ?w2 = "PushIf ''organizations'' fetchOrgs [filters_Applications, filters_Organizations] ?w1"
  let ?w3 = "PushIf ''spaces'' fetchSpaces [filters_Applications, filters_Spaces] ?w2"
  have f1: "worker_filter ?w1 = worker_filter w" by (simp add: Push_filter Reset_filter)
  have head: "workInit_head w = PushIf ''applications'' fetchApplications [filters_Applications] ?w3"
    using False by (simp add: workInit_head_def Let_def f1)
  have o: "(''organizations'', fetchOrgs) \<in> set (worker_list ?w2)"
    by (rule PushIf_adds) (simp add: f1 assms)
  have s: "(''spaces'', fetchSpaces) \<in> set (worker_list ?w3)"
    by (rule PushIf_adds) (simp add: PushIf_filter f1 assms)
  show ?thesis unfolding head using o s by (auto intro: PushIf_keeps)
qed

text \<open>
  Claim C7. When the applications category is enabled, the plan built by \<^verbatim>\<open>workInit\<close>
  holds the organizations task and the spaces task, whatever the organizations and spaces
  flags are; when the metadata category is enabled, it holds the organizations, spaces and
  applications tasks.
\<close>

theorem workInit_forced_tasks:
  "(Enabled (worker_filter w) filters_Applications \<longrightarrow>
      (''organizations'', fetchOrgs) \<in> set (worker_list (workInit w)) \<and>
      (''spaces'', fetchSpaces) \<in> set (worker_list (workInit w))) \<and>
   (Enabled (worker_filter w) filters_Metadata \<longrightarrow>
      (''organizations'', fetchOrgs) \<in> set (worker_list (workInit w)) \<and>
      (''spaces'', fetchSpaces) \<in> set (worker_list (workInit w)) \<and>
      (''applications'', fetchApplications) \<in> set (worker_list (workInit w)))"
  unfolding workInit_def
  by (auto intro!: workInit_tail_keeps dest: workInit_head_Applications simp: workInit_head_Metadata)

theorem workInit_forced_tasks_witness:
  "Enabled (worker_filter only_Applications) filters_Applications \<and>
   \<not> Enabled (worker_filter only_Applications) filters_Organizations \<and>
   \<not> Enabled (worker_filter only_Applications) filters_Spaces \<and>
   \<not> Enabled (worker_filter only_Applications) filters_Metadata \<and>
   (''organizations'', fetchOrgs) \<in> set (worker_list (workInit only_Applications)) \<and>
   (''spaces'', fetchSpaces) \<in> set (worker_list (workInit only_Applications)) \<and>
   Enabled (worker_filter only_Metadata) filters_Metadata \<and>
   \<not> Enabled (worker_filter only_Metadata) filters_Applications \<and>
   (''organizations'', fetchOrgs) \<in> set (worker_list (workInit only_Metadata)) \<and>
   (''spaces'', fetchSpaces) \<in> set (worker_list (workInit only_Metadata)) \<and>
   (''applications'', fetchApplications) \<in> set (worker_list (workInit only_Metadata))"
  using workInit_forced_tasks [of only_Applications] workInit_forced_tasks [of only_Metadata]
  by (simp add: only_Applications_def only_Metadata_def Enabled_def)

text \<open>
  Claim C3. When session establishment fails, \<^verbatim>\<open>fetch\<close> returns the fresh snapshot
  with the session error as its top-level error and nothing else written into it, leaves
  the fetcher and its task plan as they were (\<^verbatim>\<open>workInit\<close> is not reached), and no task
  has been called, whatever the worker would have done.
\<close>

theorem fetch_session_error:
  assumes "newSessionExt (config c) = Inl err"
  shows "fetch newSessionExt worker_Do c = (NewCFObjects\<lparr>Error := Some err\<rparr>, c, [])"
  using assms by (simp add: fetch_def)

theorem fetch_session_error_witness:
  "failing_session (config example_fetcher) = Inl ''unauthorized'' \<and>
   fetch failing_session writing_Do example_fetcher =
     (NewCFObjects\<lparr>Error := Some ''unauthorized''\<rparr>, example_fetcher, [])"
proof -
  have h: "failing_session (config example_fetcher) = Inl ''unauthorized''"
    by (simp add: failing_session_def)
  show ?thesis
    using h fetch_session_error [where newSessionExt = failing_session and c = example_fetcher
        and worker_Do = writing_Do]
    by simp
qed

section \<open>The gauge vectors\<close>

lemma vec_ok_Nil: "vec_ok []"
  by (simp add: vec_ok_def)

lemma set_update_one:
  "list_all (\<lambda>e. snd e = 1) vec \<Longrightarrow> set (AList.update k 1 vec) = insert (k, 1) (set vec)"
  by (induction vec) (auto simp: prod_eq_iff)

lemma list_all_update_one:
  "list_all (\<lambda>e. snd e = 1) vec \<Longrightarrow> list_all (\<lambda>e. snd e = 1) (AList.update k (1::real) vec)"
  by (induction vec) auto

lemma vec_ok_With_Set: "vec_ok vec \<Longrightarrow> vec_ok (With_Set k 1 vec)"
  by (simp add: vec_ok_def With_Set_def distinct_update list_all_update_one)

lemma set_With_Set: "vec_ok vec \<Longrightarrow> set (With_Set k 1 vec) = insert (k, 1) (set vec)"
  by (simp add: vec_ok_def With_Set_def set_update_one)

lemma vec_ok_set_all: "vec_ok vec \<Longrightarrow> vec_ok (set_all ks vec)"
  unfolding set_all_def by (induction ks arbitrary: vec) (simp_all add: vec_ok_With_Set)

lemma set_set_all: "vec_ok vec \<Longrightarrow> set (set_all ks vec) = set vec \<union> (\<lambda>k. (k, 1)) ` set ks"
  unfolding set_all_def
  by (induction ks arbitrary: vec) (simp_all add: vec_ok_With_Set set_With_Set)

lemma set_all_append: "set_all (ks @ ks') vec = set_all ks' (set_all ks vec)"
  by (simp add: set_all_def)

lemma set_all_Nil: "set_all [] vec = vec"
  by (simp add: set_all_def)

lemma vec_ok_distinct: "vec_ok vec \<Longrightarrow> distinct vec"
  by (auto simp: vec_ok_def dest: distinct_map[THEN iffD1])



lemma length_filter_distinct:
  assumes "vec_ok vec"
  shows "length (filter (\<lambda>e. P (fst e)) vec) = card {e \<in> set vec. P (fst e)}"
proof -
  have "distinct (filter (\<lambda>e. P (fst e)) vec)"
    using assms by (simp add: vec_ok_distinct)
  then have "length (filter (\<lambda>e. P (fst e)) vec) = card (set (filter (\<lambda>e. P (fst e)) vec))"
    by (rule distinct_card [symmetric])
  then show ?thesis by simp
qed



lemma distinct_GaugeVec_Collect:
  assumes "vec_ok vec" and "\<And>l x l' x'. mk l x = mk l' x' \<Longrightarrow> l = l' \<and> x = x'"
  shows "distinct (GaugeVec_Collect mk (filter Q vec))"
proof -
  have "distinct (filter Q vec)"
    using assms(1) by (simp add: vec_ok_distinct)
  moreover have "inj_on (\<lambda>(l, x). mk l x) (set (filter Q vec))"
    using assms(2) by (auto simp: inj_on_def)
  ultimately show ?thesis
    by (simp add: GaugeVec_Collect_def distinct_map)
qed

lemma set_GaugeVec_Collect_set_all:
  assumes "vec_ok vec"
  shows "set (GaugeVec_Collect mk (set_all ks vec)) =
         set (GaugeVec_Collect mk vec) \<union> set (GaugeVec_Collect mk (set_all ks []))"
  by (simp add: GaugeVec_Collect_def set_set_all [OF assms] set_set_all [OF vec_ok_Nil]
        image_Un)

section \<open>The walk, loop by loop\<close>

lemma report_organization_keys: "report_organization org vec = set_all (organization_keys org) vec"
  by (simp add: report_organization_def set_all_def organization_keys_def fold_map comp_def split_def)

lemma fold_report_organization:
  "fold report_organization orgs vec = set_all (concat (map organization_keys orgs)) vec"
  by (induction orgs arbitrary: vec) (simp_all add: set_all_Nil set_all_append report_organization_keys)

lemma report_space_keys:
  "report_space objs space (vec, w) =
     (set_all (space_keys objs space) vec, w @ space_warnings objs space)"
  by (simp add: report_space_def space_keys_def space_warnings_def set_all_def fold_map
        comp_def split_def split: option.splits)

lemma fold_report_space:
  "fold (report_space objs) sps (vec, w) =
     (set_all (concat (map (space_keys objs) sps)) vec,
      w @ concat (map (space_warnings objs) sps))"
  by (induction sps arbitrary: vec w)
     (simp_all add: set_all_Nil set_all_append report_space_keys)

lemma report_app_labels_keys:
  "report_app_labels app org space vec =
     set_all (map (\<lambda>(key, value).
                (app_GUID app, app_Name app, org_GUID org, org_Name org, space_GUID space,
                 space_Name space, key, value))
            (rendered_labels app org space)) vec"
  by (simp add: report_app_labels_def rendered_labels_def set_all_def fold_map comp_def
        split_def Let_def)

lemma report_application_keys:
  "report_application objs app (vec, w) =
     (set_all (application_keys objs app) vec, w @ application_warnings objs app)"
  by (simp add: report_application_def application_keys_def application_warnings_def
        resolve_application_def space_warnings_def report_app_labels_keys set_all_Nil
        split: option.splits)

lemma fold_report_application:
  "fold (report_application objs) apps (vec, w) =
     (set_all (concat (map (application_keys objs) apps)) vec,
      w @ concat (map (application_warnings objs) apps))"
  by (induction apps arbitrary: vec w)
     (simp_all add: set_all_Nil set_all_append report_application_keys)

text \<open>
  The walk in one equation: each vector has the gauges of its entities' label tuples set
  to 1 on top of what it held, the channel receives the three vectors, the warnings are
  those of the spaces followed by those of the applications, and the error is \<^verbatim>\<open>nil\<close>.
\<close>

lemma reportMetadataMetrics_eq:
  "reportMetadataMetrics c objs =
     (c\<lparr>organizationMetadataMetric :=
          set_all (concat (map organization_keys (Organizations objs)))
            (organizationMetadataMetric c),
        spaceMetadataMetric :=
          set_all (concat (map (space_keys objs) (Spaces objs))) (spaceMetadataMetric c),
        applicationMetadataMetric :=
          set_all (concat (map (application_keys objs) (Applications objs)))
            (applicationMetadataMetric c)\<rparr>,
      GaugeVec_Collect OrganizationMetadata
          (set_all (concat (map organization_keys (Organizations objs)))
            (organizationMetadataMetric c))
        @ GaugeVec_Collect SpaceMetadata
            (set_all (concat (map (space_keys objs) (Spaces objs))) (spaceMetadataMetric c))
        @ GaugeVec_Collect ApplicationMetadata
            (set_all (concat (map (application_keys objs) (Applications objs)))
              (applicationMetadataMetric c)),
      concat (map (space_warnings objs) (Spaces objs))
        @ concat (map (application_warnings objs) (Applications objs)),
      None)"
  by (simp add: reportMetadataMetrics_def fold_report_organization fold_report_space
        fold_report_application Let_def)


lemma NewMetadataCollector_ok: "collector_ok (NewMetadataCollector ns env dep)"
  by (simp add: collector_ok_def NewMetadataCollector_def vec_ok_Nil)

lemma reportMetadataMetrics_ok:
  "collector_ok c \<Longrightarrow> collector_ok (fst (reportMetadataMetrics c objs))"
  by (simp add: collector_ok_def reportMetadataMetrics_eq vec_ok_set_all)

lemma reportMetadataMetrics_retained:
  "retained (fst (reportMetadataMetrics c objs)) = fst (snd (reportMetadataMetrics c objs))"
  by (simp add: retained_def reportMetadataMetrics_eq)

lemma detail_samples_walk:
  "detail_samples (fst (snd (reportMetadataMetrics c objs))) =
   fst (snd (reportMetadataMetrics c objs))"
  by (simp add: detail_samples_def reportMetadataMetrics_eq GaugeVec_Collect_def split_def)

lemma walk_channel_retained:
  assumes "collector_ok c"
  shows "set (fst (snd (reportMetadataMetrics c objs))) =
         set (retained c)
           \<union> set (fst (snd (reportMetadataMetrics (NewMetadataCollector ns env dep) objs)))"
proof -
  have ok: "vec_ok (organizationMetadataMetric c)" "vec_ok (spaceMetadataMetric c)"
    "vec_ok (applicationMetadataMetric c)"
    using assms by (simp_all add: collector_ok_def)
  have new: "organizationMetadataMetric (NewMetadataCollector ns env dep) = []"
    "spaceMetadataMetric (NewMetadataCollector ns env dep) = []"
    "applicationMetadataMetric (NewMetadataCollector ns env dep) = []"
    by (simp_all add: NewMetadataCollector_def)
  show ?thesis
    unfolding reportMetadataMetrics_eq fst_conv snd_conv retained_def new set_append
      set_GaugeVec_Collect_set_all [OF ok(1)] set_GaugeVec_Collect_set_all [OF ok(2)]
      set_GaugeVec_Collect_set_all [OF ok(3)]
    by blast
qed

lemma distinct_walk_channel:
  assumes "collector_ok c"
  shows "distinct (fst (snd (reportMetadataMetrics c objs)))"
proof -
  have ok: "vec_ok (organizationMetadataMetric c)" "vec_ok (spaceMetadataMetric c)"
    "vec_ok (applicationMetadataMetric c)"
    using assms by (simp_all add: collector_ok_def)
  have d: "distinct (GaugeVec_Collect OrganizationMetadata (set_all ks1 (organizationMetadataMetric c)))"
    "distinct (GaugeVec_Collect SpaceMetadata (set_all ks2 (spaceMetadataMetric c)))"
    "distinct (GaugeVec_Collect ApplicationMetadata (set_all ks3 (applicationMetadataMetric c)))"
    for ks1 ks2 ks3
    using distinct_GaugeVec_Collect [OF vec_ok_set_all [OF ok(1)], of OrganizationMetadata "\<lambda>e. True" ks1]
      distinct_GaugeVec_Collect [OF vec_ok_set_all [OF ok(2)], of SpaceMetadata "\<lambda>e. True" ks2]
      distinct_GaugeVec_Collect [OF vec_ok_set_all [OF ok(3)], of ApplicationMetadata "\<lambda>e. True" ks3]
    by simp_all
  show ?thesis
    unfolding reportMetadataMetrics_eq fst_conv snd_conv distinct_append
    using d by (auto simp: GaugeVec_Collect_def)
qed

section \<open>The entry point\<close>

lemma Collect_error_eq:
  assumes "Error objs \<noteq> None"
  shows "MetadataCollector_Collect now c objs =
    (c\<lparr>metadataScrapeErrorsTotalMetric := metadataScrapeErrorsTotalMetric c + 1,
       metadataScrapesTotalMetric := metadataScrapesTotalMetric c + 1,
       lastMetadataScrapeErrorMetric := 1,
       lastMetadataScrapeTimestampMetric := real_of_int now,
       lastMetadataScrapeDurationSecondsMetric := Took objs\<rparr>,
     [MetadataScrapeErrorsTotal (metadataScrapeErrorsTotalMetric c + 1),
      MetadataScrapesTotal (metadataScrapesTotalMetric c + 1),
      LastMetadataScrapeError 1,
      LastMetadataScrapeTimestamp (real_of_int now),
      LastMetadataScrapeDurationSeconds (Took objs)],
     [])"
  using assms by (simp add: MetadataCollector_Collect_def Let_def)

lemma Collect_walk_eq:
  assumes "Error objs = None"
  shows "MetadataCollector_Collect now c objs =
    ((fst (reportMetadataMetrics c objs))
       \<lparr>metadataScrapesTotalMetric := metadataScrapesTotalMetric c + 1,
        lastMetadataScrapeErrorMetric := 0,
        lastMetadataScrapeTimestampMetric := real_of_int now,
        lastMetadataScrapeDurationSecondsMetric := Took objs\<rparr>,
     fst (snd (reportMetadataMetrics c objs)) @
     [MetadataScrapeErrorsTotal (metadataScrapeErrorsTotalMetric c),
      MetadataScrapesTotal (metadataScrapesTotalMetric c + 1),
      LastMetadataScrapeError 0,
      LastMetadataScrapeTimestamp (real_of_int now),
      LastMetadataScrapeDurationSeconds (Took objs)],
     fst (snd (snd (reportMetadataMetrics c objs))))"
  using assms by (simp add: MetadataCollector_Collect_def Let_def reportMetadataMetrics_eq)

lemma Collect_walk_parts:
  assumes "Error objs = None"
  shows "detail_samples (fst (snd (MetadataCollector_Collect now c objs))) =
           fst (snd (reportMetadataMetrics c objs))"
    and "retained (fst (MetadataCollector_Collect now c objs)) =
           fst (snd (reportMetadataMetrics c objs))"
    and "collector_ok c \<Longrightarrow> collector_ok (fst (MetadataCollector_Collect now c objs))"
proof -
  show "detail_samples (fst (snd (MetadataCollector_Collect now c objs))) =
           fst (snd (reportMetadataMetrics c objs))"
    using detail_samples_walk [of c objs]
    by (simp add: Collect_walk_eq [OF assms] detail_samples_def)
  show "retained (fst (MetadataCollector_Collect now c objs)) =
           fst (snd (reportMetadataMetrics c objs))"
    using reportMetadataMetrics_retained [of c objs]
    by (simp add: Collect_walk_eq [OF assms] retained_def)
  show "collector_ok c \<Longrightarrow> collector_ok (fst (MetadataCollector_Collect now c objs))"
    using reportMetadataMetrics_ok [of c objs]
    by (simp add: Collect_walk_eq [OF assms] collector_ok_def)
qed

lemma Collect_ok:
  assumes "collector_ok c"
  shows "collector_ok (fst (MetadataCollector_Collect now c objs))"
proof (cases "Error objs = None")
  case True
  then show ?thesis using assms by (rule Collect_walk_parts(3))
next
  case False
  then show ?thesis using assms by (simp add: Collect_error_eq collector_ok_def)
qed

text \<open>
  The definitions unfolded when a concrete input is evaluated.
\<close>

lemmas example_defs = example_org_def example_space_def example_app_def example_objs_def
  new_collector_def relabelled_org_def relabelled_objs_def colliding_app_def colliding_objs_def
  labelled_space_def labelled_objs_def detached_space_def detached_app_def detached_objs_def

lemmas walk_defs = reportMetadataMetrics_def report_organization_def report_space_def
  report_application_def report_app_labels_def With_Set_def GaugeVec_Collect_def Data_GUID_def
  NewMetadataCollector_def MetadataCollector_Collect_def Let_def

lemmas view_defs = organization_samples_def space_samples_def application_samples_def
  detail_samples_def retained_def collector_ok_def vec_ok_def space_organization_def
  resolve_application_def space_warnings_def application_warnings_def rendered_labels_def

text \<open>
  Claim C2. When the snapshot carries a top-level error, an invocation of \<^verbatim>\<open>Collect\<close>
  sends no detail-metric sample and leaves the three vectors as they were (the walk is not
  attempted, no warning is logged), sets the error-flag gauge to 1 and sends it, and
  increments the scrape-error counter and the scrape-attempt counter by exactly 1 each.
\<close>

theorem Collect_top_level_error:
  assumes "Error objs \<noteq> None"
  shows "detail_samples (fst (snd (MetadataCollector_Collect now c objs))) = [] \<and>
         retained (fst (MetadataCollector_Collect now c objs)) = retained c \<and>
         snd (snd (MetadataCollector_Collect now c objs)) = [] \<and>
         lastMetadataScrapeErrorMetric (fst (MetadataCollector_Collect now c objs)) = 1 \<and>
         LastMetadataScrapeError 1 \<in> set (fst (snd (MetadataCollector_Collect now c objs))) \<and>
         metadataScrapeErrorsTotalMetric (fst (MetadataCollector_Collect now c objs)) =
           metadataScrapeErrorsTotalMetric c + 1 \<and>
         metadataScrapesTotalMetric (fst (MetadataCollector_Collect now c objs)) =
           metadataScrapesTotalMetric c + 1"
  by (simp add: Collect_error_eq [OF assms] detail_samples_def retained_def)

theorem Collect_top_level_error_witness:
  "Error errored_objs \<noteq> None \<and>
   detail_samples (fst (snd (MetadataCollector_Collect 1700000000 (NewMetadataCollector ''cf'' ''test'' ''d1'')
      errored_objs))) = [] \<and>
   lastMetadataScrapeErrorMetric (fst (MetadataCollector_Collect 1700000000
      (NewMetadataCollector ''cf'' ''test'' ''d1'') errored_objs)) = 1 \<and>
   metadataScrapeErrorsTotalMetric (fst (MetadataCollector_Collect 1700000000
      (NewMetadataCollector ''cf'' ''test'' ''d1'') errored_objs)) = 1 \<and>
   metadataScrapesTotalMetric (fst (MetadataCollector_Collect 1700000000
      (NewMetadataCollector ''cf'' ''test'' ''d1'') errored_objs)) = 1"
proof -
  have h: "Error errored_objs \<noteq> None"
    by (simp add: errored_objs_def)
  show ?thesis
    using h Collect_top_level_error [OF h, of 1700000000 "NewMetadataCollector ''cf'' ''test'' ''d1''"]
    by (simp add: NewMetadataCollector_def)
qed

text \<open>
  Claim C6. When the top-level error is unset and the walk succeeds, an invocation sets
  the error-flag gauge to 0, leaves the scrape-error counter unchanged and increments the
  scrape-attempt counter by exactly 1; on every invocation the timestamp gauge is set to
  the current time and the duration gauge to the snapshot's elapsed fetch time, and both
  are sent.
\<close>

theorem Collect_health_bookkeeping:
  "(Error objs = None \<and> snd (snd (snd (reportMetadataMetrics c objs))) = None \<longrightarrow>
      lastMetadataScrapeErrorMetric (fst (MetadataCollector_Collect now c objs)) = 0 \<and>
      LastMetadataScrapeError 0 \<in> set (fst (snd (MetadataCollector_Collect now c objs))) \<and>
      metadataScrapeErrorsTotalMetric (fst (MetadataCollector_Collect now c objs)) =
        metadataScrapeErrorsTotalMetric c \<and>
      metadataScrapesTotalMetric (fst (MetadataCollector_Collect now c objs)) =
        metadataScrapesTotalMetric c + 1) \<and>
   lastMetadataScrapeTimestampMetric (fst (MetadataCollector_Collect now c objs)) = real_of_int now \<and>
   LastMetadataScrapeTimestamp (real_of_int now) \<in> set (fst (snd (MetadataCollector_Collect now c objs))) \<and>
   lastMetadataScrapeDurationSecondsMetric (fst (MetadataCollector_Collect now c objs)) = Took objs \<and>
   LastMetadataScrapeDurationSeconds (Took objs) \<in> set (fst (snd (MetadataCollector_Collect now c objs)))"
proof (cases "Error objs = None")
  case True
  show ?thesis
    by (simp add: Collect_walk_eq [OF True] reportMetadataMetrics_eq)
next
  case False
  show ?thesis
    by (simp add: Collect_error_eq [OF False] False)
qed

theorem Collect_health_bookkeeping_witness:
  "Error example_objs = None \<and>
   snd (snd (snd (reportMetadataMetrics new_collector example_objs))) = None \<and>
   lastMetadataScrapeErrorMetric
     (fst (MetadataCollector_Collect 1700000000 new_collector example_objs)) = 0 \<and>
   metadataScrapeErrorsTotalMetric
     (fst (MetadataCollector_Collect 1700000000 new_collector example_objs)) = 0 \<and>
   metadataScrapesTotalMetric
     (fst (MetadataCollector_Collect 1700000000 new_collector example_objs)) = 1 \<and>
   lastMetadataScrapeTimestampMetric
     (fst (MetadataCollector_Collect 1700000000 new_collector example_objs)) = 1700000000 \<and>
   lastMetadataScrapeDurationSecondsMetric
     (fst (MetadataCollector_Collect 1700000000 new_collector example_objs)) = 2"
proof -
  have h1: "Error example_objs = None"
    by (simp add: example_objs_def)
  have h2: "snd (snd (snd (reportMetadataMetrics new_collector example_objs))) = None"
    by (simp add: example_defs walk_defs)
  have c: "metadataScrapeErrorsTotalMetric new_collector = 0"
          "metadataScrapesTotalMetric new_collector = 0" "Took example_objs = 2"
    by (simp_all add: example_defs NewMetadataCollector_def)
  show ?thesis
    using h1 h2 c Collect_health_bookkeeping [of example_objs new_collector 1700000000]
    by simp
qed

text \<open>
  Claim C10. The detail-metric walk returns \<^verbatim>\<open>nil\<close> for every collector and snapshot,
  so the error branch after the walk is never taken, and the error-flag gauge is 1 after
  an invocation if and only if the snapshot's top-level error is set.
\<close>

theorem walk_returns_nil:
  "snd (snd (snd (reportMetadataMetrics c objs))) = None \<and>
   (lastMetadataScrapeErrorMetric (fst (MetadataCollector_Collect now c objs)) = 1 \<longleftrightarrow> Error objs \<noteq> None)"
proof (cases "Error objs = None")
  case True
  show ?thesis
    by (simp add: Collect_walk_eq [OF True] reportMetadataMetrics_eq True)
next
  case False
  show ?thesis
    by (simp add: Collect_error_eq [OF False] False reportMetadataMetrics_eq)
qed

theorem walk_returns_nil_witness:
  "snd (snd (snd (reportMetadataMetrics new_collector example_objs))) = None \<and>
   Error example_objs = None \<and>
   lastMetadataScrapeErrorMetric
     (fst (MetadataCollector_Collect 1700000000 new_collector example_objs)) \<noteq> 1 \<and>
   Error errored_objs \<noteq> None \<and>
   lastMetadataScrapeErrorMetric
     (fst (MetadataCollector_Collect 1700000000 new_collector errored_objs)) = 1"
proof -
  have h1: "Error example_objs = None" "Error errored_objs \<noteq> None"
    by (simp_all add: example_objs_def errored_objs_def)
  show ?thesis
    using h1 walk_returns_nil [of new_collector example_objs 1700000000]
      walk_returns_nil [of new_collector errored_objs 1700000000]
    by simp
qed

section \<open>The samples of one entity\<close>














subsection \<open>Organizations\<close>




subsection \<open>Applications\<close>




section \<open>Entities that do not resolve\<close>















section \<open>Retention across invocations\<close>

text \<open>
  An invocation on the example after an invocation on the labelled snapshot sends five
  detail samples, among them the space's label tier = gold that the example does not
  contain; an invocation of a new collector on the example sends three.
\<close>

theorem detail_samples_counterexample:
  "detail_samples (fst (snd (MetadataCollector_Collect 1700000060
      (fst (MetadataCollector_Collect 1700000000 new_collector labelled_objs)) example_objs))) =
     [OrganizationMetadata (''o1'', ''org1'', ''team'', ''x'') 1,
      SpaceMetadata (''s1'', ''space1'', ''o1'', ''org1'', ''tier'', ''gold'') 1,
      ApplicationMetadata
        (''a1'', ''app1'', ''o1'', ''org1'', ''s1'', ''space1'', ''env'', ''prod'') 1,
      ApplicationMetadata
        (''a1'', ''app1'', ''o1'', ''org1'', ''s1'', ''space1'', ''org_team'', ''x'') 1,
      ApplicationMetadata
        (''a1'', ''app1'', ''o1'', ''org1'', ''s1'', ''space1'', ''space_tier'', ''gold'') 1] \<and>
   detail_samples (fst (snd (MetadataCollector_Collect 1700000060 new_collector example_objs))) =
     [OrganizationMetadata (''o1'', ''org1'', ''team'', ''x'') 1,
      ApplicationMetadata
        (''a1'', ''app1'', ''o1'', ''org1'', ''s1'', ''space1'', ''env'', ''prod'') 1,
      ApplicationMetadata
        (''a1'', ''app1'', ''o1'', ''org1'', ''s1'', ''space1'', ''org_team'', ''x'') 1]"
  by (simp add: example_defs walk_defs view_defs)

text \<open>
  Claim C8, as amended. For a snapshot without top-level error, the detail samples an
  invocation sends are those a newly constructed collector sends for the same snapshot
  together with every sample the collector retains from earlier invocations; all of them
  are retained for the next invocation.
\<close>

theorem detail_samples_amended:
  assumes "collector_ok c" and "Error objs = None"
  shows "set (detail_samples (fst (snd (MetadataCollector_Collect now c objs)))) =
           set (retained c)
             \<union> set (detail_samples (fst (snd (MetadataCollector_Collect now'
                       (NewMetadataCollector ns env dep) objs)))) \<and>
         retained (fst (MetadataCollector_Collect now c objs)) =
           detail_samples (fst (snd (MetadataCollector_Collect now c objs))) \<and>
         collector_ok (fst (MetadataCollector_Collect now c objs))"
  using walk_channel_retained [OF assms(1), of objs ns env dep] assms(1)
  by (simp add: Collect_walk_parts [OF assms(2)])

theorem detail_samples_amended_witness:
  "collector_ok (fst (MetadataCollector_Collect 1700000000 new_collector labelled_objs)) \<and>
   Error example_objs = None \<and>
   set (detail_samples (fst (snd (MetadataCollector_Collect 1700000060
          (fst (MetadataCollector_Collect 1700000000 new_collector labelled_objs))
          example_objs)))) =
     set (retained (fst (MetadataCollector_Collect 1700000000 new_collector labelled_objs)))
       \<union> set (detail_samples (fst (snd (MetadataCollector_Collect 1700000060
                 (NewMetadataCollector ''cf'' ''test'' ''bosh'') example_objs))))"
proof -
  have h: "collector_ok (fst (MetadataCollector_Collect 1700000000 new_collector labelled_objs))"
    "Error example_objs = None"
    by (simp_all add: example_defs walk_defs view_defs)
  show ?thesis
    using h detail_samples_amended [OF h, of 1700000060 1700000060 "''cf''" "''test''" "''bosh''"]
    by blast
qed

section \<open>The end-to-end example\<close>

text \<open>
  A collector that rendered the labelled snapshot and then renders the example, whose
  space has no label, sends a space sample and a \<open>space_\<close> application sample.
\<close>

theorem example_rendered_counterexample:
  "space_Labels example_space = [] \<and>
   fst (snd (reportMetadataMetrics (fst (reportMetadataMetrics new_collector labelled_objs))
      example_objs)) =
     [OrganizationMetadata (''o1'', ''org1'', ''team'', ''x'') 1,
      SpaceMetadata (''s1'', ''space1'', ''o1'', ''org1'', ''tier'', ''gold'') 1,
      ApplicationMetadata
        (''a1'', ''app1'', ''o1'', ''org1'', ''s1'', ''space1'', ''env'', ''prod'') 1,
      ApplicationMetadata
        (''a1'', ''app1'', ''o1'', ''org1'', ''s1'', ''space1'', ''org_team'', ''x'') 1,
      ApplicationMetadata
        (''a1'', ''app1'', ''o1'', ''org1'', ''s1'', ''space1'', ''space_tier'', ''gold'') 1]"
  by (simp add: example_defs walk_defs view_defs)

text \<open>
  Claim C9, as amended. The snapshot of organization \<open>o1\<close> (\<open>org1\<close>, labels team = x),
  space \<open>s1\<close> (\<open>space1\<close>, in \<open>o1\<close>, no labels) and application \<open>a1\<close> (\<open>app1\<close>, in \<open>s1\<close>,
  labels env = prod) is rendered as three samples of value 1, the organization sample, the
  application's own sample and the application's \<open>org_team\<close> sample, together with the
  samples the collector retains from earlier passes, and without a warning. When every
  retained sample is one of the three (a new collector retains none), exactly these three
  are sent: no space sample and no \<open>space_\<close> sample.
\<close>

theorem example_rendered_amended:
  assumes "collector_ok c"
  shows "set (fst (snd (reportMetadataMetrics c example_objs))) =
           {OrganizationMetadata (''o1'', ''org1'', ''team'', ''x'') 1,
            ApplicationMetadata
              (''a1'', ''app1'', ''o1'', ''org1'', ''s1'', ''space1'', ''env'', ''prod'') 1,
            ApplicationMetadata
              (''a1'', ''app1'', ''o1'', ''org1'', ''s1'', ''space1'', ''org_team'', ''x'') 1}
             \<union> set (retained c) \<and>
         fst (snd (snd (reportMetadataMetrics c example_objs))) = [] \<and>
         (set (retained c) \<subseteq>
            {OrganizationMetadata (''o1'', ''org1'', ''team'', ''x'') 1,
             ApplicationMetadata
               (''a1'', ''app1'', ''o1'', ''org1'', ''s1'', ''space1'', ''env'', ''prod'') 1,
             ApplicationMetadata
               (''a1'', ''app1'', ''o1'', ''org1'', ''s1'', ''space1'', ''org_team'', ''x'') 1}
          \<longrightarrow>
          set (fst (snd (reportMetadataMetrics c example_objs))) =
            {OrganizationMetadata (''o1'', ''org1'', ''team'', ''x'') 1,
             ApplicationMetadata
               (''a1'', ''app1'', ''o1'', ''org1'', ''s1'', ''space1'', ''env'', ''prod'') 1,
             ApplicationMetadata
               (''a1'', ''app1'', ''o1'', ''org1'', ''s1'', ''space1'', ''org_team'', ''x'') 1} \<and>
          length (fst (snd (reportMetadataMetrics c example_objs))) = 3)"
proof -
  let ?three = "{OrganizationMetadata (''o1'', ''org1'', ''team'', ''x'') 1,
            ApplicationMetadata
              (''a1'', ''app1'', ''o1'', ''org1'', ''s1'', ''space1'', ''env'', ''prod'') 1,
            ApplicationMetadata
              (''a1'', ''app1'', ''o1'', ''org1'', ''s1'', ''space1'', ''org_team'', ''x'') 1}"
  let ?ch = "fst (snd (reportMetadataMetrics c example_objs))"
  have new: "set (fst (snd (reportMetadataMetrics (NewMetadataCollector [] [] []) example_objs)))
             = ?three"
    by (simp add: example_defs walk_defs)
  have A: "set ?ch = ?three \<union> set (retained c)"
    using walk_channel_retained [OF assms, of example_objs "[]" "[]" "[]"] new by blast
  have W: "fst (snd (snd (reportMetadataMetrics c example_objs))) = []"
    by (simp add: reportMetadataMetrics_eq example_defs space_warnings_def
          application_warnings_def Data_GUID_def)
  have c3: "card ?three = 3"
    by simp
  have B: "set (retained c) \<subseteq> ?three \<longrightarrow> set ?ch = ?three \<and> length ?ch = 3"
  proof
    assume "set (retained c) \<subseteq> ?three"
    with A have s: "set ?ch = ?three" by blast
    have "length ?ch = card (set ?ch)"
      using distinct_walk_channel [OF assms, of example_objs] by (rule distinct_card [symmetric])
    with s c3 show "set ?ch = ?three \<and> length ?ch = 3" by simp
  qed
  show ?thesis using A W B by blast
qed

theorem example_rendered_amended_witness:
  "collector_ok used_collector \<and>
   retained used_collector =
     [OrganizationMetadata (''o1'', ''org1'', ''team'', ''x'') 1,
      ApplicationMetadata
        (''a1'', ''app1'', ''o1'', ''org1'', ''s1'', ''space1'', ''env'', ''prod'') 1,
      ApplicationMetadata
        (''a1'', ''app1'', ''o1'', ''org1'', ''s1'', ''space1'', ''org_team'', ''x'') 1] \<and>
   set (fst (snd (reportMetadataMetrics used_collector example_objs))) =
     {OrganizationMetadata (''o1'', ''org1'', ''team'', ''x'') 1,
      ApplicationMetadata
        (''a1'', ''app1'', ''o1'', ''org1'', ''s1'', ''space1'', ''env'', ''prod'') 1,
      ApplicationMetadata
        (''a1'', ''app1'', ''o1'', ''org1'', ''s1'', ''space1'', ''org_team'', ''x'') 1} \<and>
   length (fst (snd (reportMetadataMetrics used_collector example_objs))) = 3"
proof -
  have h: "collector_ok used_collector"
    by (simp add: used_collector_def example_defs walk_defs view_defs)
  have r: "retained used_collector =
     [OrganizationMetadata (''o1'', ''org1'', ''team'', ''x'') 1,
      ApplicationMetadata
        (''a1'', ''app1'', ''o1'', ''org1'', ''s1'', ''space1'', ''env'', ''prod'') 1,
      ApplicationMetadata
        (''a1'', ''app1'', ''o1'', ''org1'', ''s1'', ''space1'', ''org_team'', ''x'') 1]"
    by (simp add: used_collector_def example_defs walk_defs view_defs)
  have sub: "set (retained used_collector) \<subseteq>
     {OrganizationMetadata (''o1'', ''org1'', ''team'', ''x'') 1,
      ApplicationMetadata
        (''a1'', ''app1'', ''o1'', ''org1'', ''s1'', ''space1'', ''env'', ''prod'') 1,
      ApplicationMetadata
        (''a1'', ''app1'', ''o1'', ''org1'', ''s1'', ''space1'', ''org_team'', ''x'') 1}"
    unfolding r by simp
  show ?thesis
    using h r sub example_rendered_amended [OF h] by blast
qed

end
